theory Spec2Isabelle
  imports Main
begin

section \<open>Values of the program\<close>

text \<open>
  The program is one Go file, \<^verbatim>\<open>src/main.go\<close>: four HTTP handlers over one MongoDB
  collection, reached through the driver \<^verbatim>\<open>gopkg.in/mgo.v2\<close>. Go strings are byte
  strings, modelled as \<^typ>\<open>string\<close> (a \<^typ>\<open>char\<close> is one byte).

  A \<^verbatim>\<open>time.Time\<close> is modelled as an instant counted in milliseconds from the Unix
  epoch, the resolution at which the store keeps a date. \<open>zeroTime\<close> is Go's zero
  \<^verbatim>\<open>time.Time{}\<close>, midnight of 1 January of year 1.
\<close>

type_synonym time = int

definition zeroTime :: time where
  "zeroTime = - 62135596800000"

text \<open>
  Go \<^verbatim>\<open>error\<close> values the handlers can hold: the two errors the driver reports about
  the collection's content, any other failure of a storage call, and a failure of
  \<^verbatim>\<open>json.Decoder.Decode\<close>.
\<close>

datatype error =
    ErrNotFound
  | ErrDuplicateKey
  | ErrStorage string
  | ErrDecode string

subsection \<open>strings.TrimSpace\<close>

text \<open>
  \<^verbatim>\<open>strings.TrimSpace\<close> removes every leading and every trailing white-space rune, as
  \<^verbatim>\<open>unicode.IsSpace\<close> defines them. \<open>spaceRunes\<close> lists their UTF-8 encodings: the six
  ASCII ones, U+0085, U+00A0, U+1680, U+2000 to U+200A, U+2028, U+2029, U+202F, U+205F
  and U+3000.
\<close>

definition spaceRunes :: "string list" where
  "spaceRunes =
    [[CHR 0x09], [CHR 0x0A], [CHR 0x0B], [CHR 0x0C], [CHR 0x0D], [CHR 0x20],
     [CHR 0xC2, CHR 0x85], [CHR 0xC2, CHR 0xA0],
     [CHR 0xE1, CHR 0x9A, CHR 0x80],
     [CHR 0xE2, CHR 0x80, CHR 0x80], [CHR 0xE2, CHR 0x80, CHR 0x81],
     [CHR 0xE2, CHR 0x80, CHR 0x82], [CHR 0xE2, CHR 0x80, CHR 0x83],
     [CHR 0xE2, CHR 0x80, CHR 0x84], [CHR 0xE2, CHR 0x80, CHR 0x85],
     [CHR 0xE2, CHR 0x80, CHR 0x86], [CHR 0xE2, CHR 0x80, CHR 0x87],
     [CHR 0xE2, CHR 0x80, CHR 0x88], [CHR 0xE2, CHR 0x80, CHR 0x89],
     [CHR 0xE2, CHR 0x80, CHR 0x8A],
     [CHR 0xE2, CHR 0x80, CHR 0xA8], [CHR 0xE2, CHR 0x80, CHR 0xA9],
     [CHR 0xE2, CHR 0x80, CHR 0xAF],
     [CHR 0xE2, CHR 0x81, CHR 0x9F],
     [CHR 0xE3, CHR 0x80, CHR 0x80]]"

text \<open>
  \<open>dropRunes ps s\<close> removes from the front of \<open>s\<close> every byte sequence of \<open>ps\<close>, one
  after the other, until none of them starts \<open>s\<close>.
\<close>

function dropRunes :: "string list \<Rightarrow> string \<Rightarrow> string" where
  "dropRunes ps s =
     (case find (\<lambda>p. p \<noteq> [] \<and> take (length p) s = p) ps of
        None \<Rightarrow> s
      | Some p \<Rightarrow> dropRunes ps (drop (length p) s))"
  by pat_completeness auto
termination
proof (relation "measure (\<lambda>(ps, s). length s)")
  show "wf (measure (\<lambda>(ps, s). length s))"
    by simp
next
  fix ps :: "string list" and s p :: string
  assume "find (\<lambda>p. p \<noteq> [] \<and> take (length p) s = p) ps = Some p"
  then have p: "p \<noteq> []" "take (length p) s = p"
    by (auto simp: find_Some_iff)
  then have "s \<noteq> []"
    by auto
  with p show "((ps, drop (length p) s), (ps, s)) \<in> measure (\<lambda>(ps, s). length s)"
    by (cases p) auto
qed

definition TrimSpace :: "string \<Rightarrow> string" where
  "TrimSpace s = rev (dropRunes (map rev spaceRunes) (rev (dropRunes spaceRunes s)))"

subsection \<open>bson.ObjectId\<close>

text \<open>
  A \<^verbatim>\<open>bson.ObjectId\<close> is a Go string holding the raw bytes of the identifier (twelve
  for every identifier the driver makes). \<open>fromHexChar\<close>, \<open>DecodeString\<close> and
  \<open>EncodeToString\<close> are those of \<^verbatim>\<open>encoding/hex\<close>, which the \<^verbatim>\<open>bson\<close> package calls.
\<close>

type_synonym ObjectId = string

definition fromHexChar :: "char \<Rightarrow> nat option" where
  "fromHexChar c =
     (let n = (of_char c :: nat) in
      if 48 \<le> n \<and> n \<le> 57 then Some (n - 48)
      else if 97 \<le> n \<and> n \<le> 102 then Some (n - 97 + 10)
      else if 65 \<le> n \<and> n \<le> 70 then Some (n - 65 + 10)
      else None)"

fun DecodeString :: "string \<Rightarrow> string option" where
  "DecodeString [] = Some []"
| "DecodeString [c] = None"
| "DecodeString (a # b # cs) =
     (case (fromHexChar a, fromHexChar b) of
        (Some hi, Some lo) \<Rightarrow>
          (case DecodeString cs of
             None \<Rightarrow> None
           | Some bs \<Rightarrow> Some (char_of (hi * 16 + lo) # bs))
      | _ \<Rightarrow> None)"

definition hextable :: string where
  "hextable = ''0123456789abcdef''"

definition EncodeToString :: "string \<Rightarrow> string" where
  "EncodeToString bs =
     concat (map (\<lambda>b. [hextable ! ((of_char b :: nat) div 16),
                        hextable ! ((of_char b :: nat) mod 16)]) bs)"

text \<open>
  \<^verbatim>\<open>bson.IsObjectIdHex\<close>: the string has 24 bytes and decodes as hexadecimal.
  \<^verbatim>\<open>bson.ObjectIdHex\<close> panics unless the string decodes to twelve bytes: \<open>None\<close> is the
  panic. \<^verbatim>\<open>ObjectId.Hex\<close> renders the bytes in lower-case hexadecimal.
\<close>

definition IsObjectIdHex :: "string \<Rightarrow> bool" where
  "IsObjectIdHex s = (if length s \<noteq> 24 then False else DecodeString s \<noteq> None)"

definition ObjectIdHex :: "string \<Rightarrow> ObjectId option" where
  "ObjectIdHex s =
     (case DecodeString s of
        None \<Rightarrow> None
      | Some d \<Rightarrow> if length d \<noteq> 12 then None else Some d)"

definition Hex :: "ObjectId \<Rightarrow> string" where
  "Hex oid = EncodeToString oid"

subsection \<open>The two structs\<close>

text \<open>
  \<^verbatim>\<open>TodoModel\<close> is the value written to and read from the collection, \<^verbatim>\<open>Todo\<close> the
  value decoded from a request body and encoded in a listing. The fields carry the
  prefix of the variable the source holds them in (\<^verbatim>\<open>tm\<close> and \<^verbatim>\<open>t\<close>).
\<close>

record TodoModel =
  tm_ID :: ObjectId
  tm_Title :: string
  tm_Completed :: bool
  tm_CreatedAt :: time

record Todo =
  t_ID :: string
  t_Title :: string
  t_Completed :: bool
  t_CreatedAt :: time

section \<open>The collection and the driver\<close>

text \<open>
  The driver is not part of the repository; its four calls are modelled from the
  documentation of \<^verbatim>\<open>gopkg.in/mgo.v2\<close> and of the MongoDB server.

  A stored document always has an \<^verbatim>\<open>_id\<close>. Each of the three other fields the program
  writes is present or absent: a document is not bound to the shape of \<^verbatim>\<open>TodoModel\<close>.
  The collection keeps its documents in insertion order.
\<close>

record document =
  d_id :: ObjectId
  d_title :: "string option"
  d_completed :: "bool option"
  d_createdAt :: "time option"

text \<open>The calls the handlers make on \<^verbatim>\<open>db.C(collectionName)\<close>, recorded as they happen.\<close>

datatype dbcall =
    CallFindAll
  | CallInsert TodoModel
  | CallRemoveId ObjectId
  | CallUpdate ObjectId string bool

record database =
  docs :: "document list"
  calls :: "dbcall list"

definition emptyDB :: database where
  "emptyDB = \<lparr>docs = [], calls = []\<rparr>"

text \<open>
  What a handler reads from outside the request and the collection: whether its storage
  call fails for a reason of the driver or the server (\<open>fault\<close>), the identifier
  \<^verbatim>\<open>bson.NewObjectId()\<close> returns, and the reading of \<^verbatim>\<open>time.Now()\<close>.
\<close>

record env =
  fault :: "error option"
  newObjectId :: ObjectId
  now :: time

text \<open>
  \<open>marshal\<close>: the document \<^verbatim>\<open>Insert(&tm)\<close> sends, by the \<^verbatim>\<open>bson\<close> tags of \<^verbatim>\<open>TodoModel\<close>.
  The tag \<^verbatim>\<open>omitempty\<close> of \<^verbatim>\<open>_id\<close> plays no part: \<^verbatim>\<open>bson.NewObjectId()\<close> never
  returns the empty identifier.
  \<open>unmarshal\<close>: a document read into a fresh \<^verbatim>\<open>TodoModel\<close>; a field the document lacks
  keeps Go's zero value.
\<close>

definition marshal :: "TodoModel \<Rightarrow> document" where
  "marshal tm =
     \<lparr>d_id = tm_ID tm, d_title = Some (tm_Title tm),
      d_completed = Some (tm_Completed tm), d_createdAt = Some (tm_CreatedAt tm)\<rparr>"

definition unmarshal :: "document \<Rightarrow> TodoModel" where
  "unmarshal d =
     \<lparr>tm_ID = d_id d,
      tm_Title = (case d_title d of None \<Rightarrow> [] | Some s \<Rightarrow> s),
      tm_Completed = (case d_completed d of None \<Rightarrow> False | Some b \<Rightarrow> b),
      tm_CreatedAt = (case d_createdAt d of None \<Rightarrow> zeroTime | Some ts \<Rightarrow> ts)\<rparr>"

definition logCall :: "dbcall \<Rightarrow> database \<Rightarrow> database" where
  "logCall c db = db\<lparr>calls := calls db @ [c]\<rparr>"

text \<open>\<^verbatim>\<open>Find(bson.M{}).All(&todos)\<close>: every document, in the collection's order.\<close>

definition FindAll :: "env \<Rightarrow> database \<Rightarrow> (error + TodoModel list) \<times> database" where
  "FindAll ev db =
     (case fault ev of
        Some e \<Rightarrow> (Inl e, logCall CallFindAll db)
      | None \<Rightarrow> (Inr (map unmarshal (docs db)), logCall CallFindAll db))"

text \<open>
  \<^verbatim>\<open>Insert(&tm)\<close>: the server keeps a unique index on \<^verbatim>\<open>_id\<close> and refuses a document
  whose \<^verbatim>\<open>_id\<close> is taken.
\<close>

definition Insert :: "env \<Rightarrow> database \<Rightarrow> TodoModel \<Rightarrow> error option \<times> database" where
  "Insert ev db tm =
     (case fault ev of
        Some e \<Rightarrow> (Some e, logCall (CallInsert tm) db)
      | None \<Rightarrow>
          if tm_ID tm \<in> set (map d_id (docs db))
          then (Some ErrDuplicateKey, logCall (CallInsert tm) db)
          else (None, logCall (CallInsert tm) (db\<lparr>docs := docs db @ [marshal tm]\<rparr>)))"

text \<open>
  \<^verbatim>\<open>RemoveId(id)\<close> removes one document with that \<^verbatim>\<open>_id\<close>; in the session's default safe
  mode it returns \<^verbatim>\<open>ErrNotFound\<close> when no document matches.
\<close>

fun removeFirst :: "ObjectId \<Rightarrow> document list \<Rightarrow> document list" where
  "removeFirst oid [] = []"
| "removeFirst oid (d # ds) = (if d_id d = oid then ds else d # removeFirst oid ds)"

definition RemoveId :: "env \<Rightarrow> database \<Rightarrow> ObjectId \<Rightarrow> error option \<times> database" where
  "RemoveId ev db oid =
     (case fault ev of
        Some e \<Rightarrow> (Some e, logCall (CallRemoveId oid) db)
      | None \<Rightarrow>
          if oid \<notin> set (map d_id (docs db))
          then (Some ErrNotFound, logCall (CallRemoveId oid) db)
          else (None, logCall (CallRemoveId oid) (db\<lparr>docs := removeFirst oid (docs db)\<rparr>)))"

text \<open>
  \<^verbatim>\<open>Update(bson.M{"_id": id}, bson.M{"title": title, "completed": completed})\<close>. The
  driver sends both documents to the server as they are and updates one document. The
  second document holds no update operator (such as \<^verbatim>\<open>$set\<close>), only pairs of a field and
  a value, and the server takes such a document as a replacement: the first matching
  document keeps its \<^verbatim>\<open>_id\<close> and has exactly the fields of the replacement afterwards, so
  a field the replacement does not name (\<^verbatim>\<open>createdAt\<close>) is gone. In safe mode, the default
  of a session made by \<^verbatim>\<open>mgo.Dial\<close>, the driver returns \<^verbatim>\<open>ErrNotFound\<close> when no document
  matches.
\<close>

fun replaceFirst :: "ObjectId \<Rightarrow> string \<Rightarrow> bool \<Rightarrow> document list \<Rightarrow> document list" where
  "replaceFirst oid title completed [] = []"
| "replaceFirst oid title completed (d # ds) =
     (if d_id d = oid
      then \<lparr>d_id = d_id d, d_title = Some title, d_completed = Some completed,
            d_createdAt = None\<rparr> # ds
      else d # replaceFirst oid title completed ds)"

definition Update :: "env \<Rightarrow> database \<Rightarrow> ObjectId \<Rightarrow> string \<Rightarrow> bool \<Rightarrow> error option \<times> database" where
  "Update ev db oid title completed =
     (case fault ev of
        Some e \<Rightarrow> (Some e, logCall (CallUpdate oid title completed) db)
      | None \<Rightarrow>
          if oid \<notin> set (map d_id (docs db))
          then (Some ErrNotFound, logCall (CallUpdate oid title completed) db)
          else (None, logCall (CallUpdate oid title completed)
                  (db\<lparr>docs := replaceFirst oid title completed (docs db)\<rparr>)))"

section \<open>Requests and responses\<close>

text \<open>
  A request carries the path parameter \<^verbatim>\<open>chi.URLParam(r, "id")\<close> and the outcome of
  \<^verbatim>\<open>json.NewDecoder(r.Body).Decode(&t)\<close>: the decoding error, or the decoded \<^verbatim>\<open>Todo\<close>.
\<close>

record request =
  urlParam_id :: string
  decoded :: "error + Todo"

text \<open>
  The JSON documents the handlers render. An object lists its members in the order the
  encoder writes them: the keys of a \<^verbatim>\<open>renderer.M\<close> (a Go map) sorted, the fields of a
  struct as declared. \<open>JError\<close> stands for the encoding of a Go error value, which the
  model does not expand.
\<close>

datatype json =
    JNull
  | JBool bool
  | JString string
  | JTime time
  | JError error
  | JArray "json list"
  | JObject "(string \<times> json) list"

record response =
  status :: nat
  body :: json

definition StatusProcessing :: nat where "StatusProcessing = 102"
definition StatusOK :: nat where "StatusOK = 200"
definition StatusCreated :: nat where "StatusCreated = 201"
definition StatusBadRequest :: nat where "StatusBadRequest = 400"

text \<open>\<^verbatim>\<open>rnd.JSON(w, status, v)\<close> writes the status and the encoding of \<open>v\<close>.\<close>

definition JSON :: "nat \<Rightarrow> json \<Rightarrow> response" where
  "JSON st v = \<lparr>status = st, body = v\<rparr>"

text \<open>
  A Go slice is \<^verbatim>\<open>nil\<close> (\<open>None\<close>) or holds elements; \<^verbatim>\<open>append\<close> makes a \<^verbatim>\<open>nil\<close> slice a
  slice of one element. The encoder writes a \<^verbatim>\<open>nil\<close> slice as \<^verbatim>\<open>null\<close>.
\<close>

definition append_slice :: "'a list option \<Rightarrow> 'a \<Rightarrow> 'a list option" where
  "append_slice s x = (case s of None \<Rightarrow> Some [x] | Some xs \<Rightarrow> Some (xs @ [x]))"

definition encodeTodo :: "Todo \<Rightarrow> json" where
  "encodeTodo t =
     JObject [(''id'', JString (t_ID t)), (''title'', JString (t_Title t)),
              (''completed'', JBool (t_Completed t)), (''createdAt'', JTime (t_CreatedAt t))]"

definition encodeTodoList :: "Todo list option \<Rightarrow> json" where
  "encodeTodoList s = (case s of None \<Rightarrow> JNull | Some ts \<Rightarrow> JArray (map encodeTodo ts))"

text \<open>
  What a handler leaves behind: the response it wrote, if it wrote one, and the
  database; or a panic.
\<close>

datatype result =
    Panic
  | Return "response option" database

section \<open>The handlers\<close>

text \<open>The loop of \<^verbatim>\<open>fetchTodos\<close> over \<^verbatim>\<open>todos\<close>, appending one view per record.\<close>

definition todoView :: "TodoModel \<Rightarrow> Todo" where
  "todoView t =
     \<lparr>t_ID = Hex (tm_ID t), t_Title = tm_Title t, t_Completed = tm_Completed t,
      t_CreatedAt = tm_CreatedAt t\<rparr>"

fun fetchLoop :: "Todo list option \<Rightarrow> TodoModel list \<Rightarrow> Todo list option" where
  "fetchLoop todoList [] = todoList"
| "fetchLoop todoList (t # todos) = fetchLoop (append_slice todoList (todoView t)) todos"

definition fetchTodos :: "env \<Rightarrow> database \<Rightarrow> result" where
  "fetchTodos ev db =
     (case FindAll ev db of
        (Inl err, db') \<Rightarrow>
          Return (Some (JSON StatusProcessing
            (JObject [(''error'', JError err), (''message'', JString ''Failed to fetch Todo'')]))) db'
      | (Inr todos, db') \<Rightarrow>
          Return (Some (JSON StatusOK
            (JObject [(''data'', encodeTodoList (fetchLoop None todos))]))) db')"

definition createTodo :: "env \<Rightarrow> database \<Rightarrow> request \<Rightarrow> result" where
  "createTodo ev db r =
     (case decoded r of
        Inl err \<Rightarrow> Return (Some (JSON StatusProcessing (JError err))) db
      | Inr t \<Rightarrow>
          if t_Title t = []
          then Return (Some (JSON StatusBadRequest
                 (JObject [(''message'', JString ''The title is required'')]))) db
          else
            let tm = \<lparr>tm_ID = newObjectId ev, tm_Title = t_Title t, tm_Completed = False,
                      tm_CreatedAt = now ev\<rparr>
            in (case Insert ev db tm of
                  (Some err, db') \<Rightarrow>
                    Return (Some (JSON StatusProcessing
                      (JObject [(''message'', JString ''Failed to save todo'')]))) db'
                | (None, db') \<Rightarrow>
                    Return (Some (JSON StatusCreated
                      (JObject [(''message'', JString ''todo created successfully''),
                                (''todo_id'', JString (Hex (tm_ID tm)))]))) db'))"

definition deleteTodo :: "env \<Rightarrow> database \<Rightarrow> request \<Rightarrow> result" where
  "deleteTodo ev db r =
     (let id = TrimSpace (urlParam_id r) in
      if \<not> IsObjectIdHex id
      then Return (Some (JSON StatusBadRequest
             (JObject [(''message'', JString ''The id is invalid'')]))) db
      else
        (case ObjectIdHex id of
           None \<Rightarrow> Panic
         | Some oid \<Rightarrow>
             (case RemoveId ev db oid of
                (Some err, db') \<Rightarrow>
                  Return (Some (JSON StatusBadRequest
                    (JObject [(''error'', JError err),
                              (''message'', JString ''Failed to delete todo'')]))) db'
              | (None, db') \<Rightarrow>
                  Return (Some (JSON StatusOK
                    (JObject [(''message'', JString ''Todo deleted successfully'')]))) db')))"

definition updateTodo :: "env \<Rightarrow> database \<Rightarrow> request \<Rightarrow> result" where
  "updateTodo ev db r =
     (let id = TrimSpace (urlParam_id r) in
      if \<not> IsObjectIdHex id
      then Return (Some (JSON StatusBadRequest
             (JObject [(''message'', JString ''The id is invalid'')]))) db
      else
        (case decoded r of
           Inl err \<Rightarrow>
             Return (Some (JSON StatusProcessing
               (JObject [(''error'', JError err),
                         (''message'', JString ''The body is invalid'')]))) db
         | Inr t \<Rightarrow>
             if t_Title t = []
             then Return (Some (JSON StatusBadRequest
                    (JObject [(''message'', JString ''The title field is required'')]))) db
             else
               (case ObjectIdHex id of
                  None \<Rightarrow> Panic
                | Some oid \<Rightarrow>
                    (case Update ev db oid (t_Title t) (t_Completed t) of
                       (Some err, db') \<Rightarrow>
                         Return (Some (JSON StatusProcessing
                           (JObject [(''message'', JString ''Failed to update todo'')]))) db'
                     | (None, db') \<Rightarrow> Return None db'))))"

section \<open>The router and runs of requests\<close>

text \<open>
  \<^verbatim>\<open>todoHandlers\<close> routes each method of \<^verbatim>\<open>/todo\<close> to its handler. A request of a run
  brings the environment its handler reads.
\<close>

datatype httpRequest =
    GET env
  | POST env request
  | PUT env request
  | DELETE env request

fun todoHandlers :: "database \<Rightarrow> httpRequest \<Rightarrow> result" where
  "todoHandlers db (GET ev) = fetchTodos ev db"
| "todoHandlers db (POST ev r) = createTodo ev db r"
| "todoHandlers db (PUT ev r) = updateTodo ev db r"
| "todoHandlers db (DELETE ev r) = deleteTodo ev db r"

text \<open>
  The server recovers a panicking handler: the client gets no response from it, and the
  handler had not reached its storage call.
\<close>

definition serve :: "database \<Rightarrow> httpRequest \<Rightarrow> response option \<times> database" where
  "serve db q =
     (case todoHandlers db q of
        Panic \<Rightarrow> (None, db)
      | Return resp db' \<Rightarrow> (resp, db'))"

fun run :: "database \<Rightarrow> httpRequest list \<Rightarrow> response option list \<times> database" where
  "run db [] = ([], db)"
| "run db (q # qs) =
     (case serve db q of
        (resp, db') \<Rightarrow>
          (case run db' qs of
             (resps, db'') \<Rightarrow> (resp # resps, db'')))"

definition hasStatus :: "nat \<Rightarrow> response option \<Rightarrow> bool" where
  "hasStatus st resp = (case resp of None \<Rightarrow> False | Some r \<Rightarrow> status r = st)"

fun isPOST :: "httpRequest \<Rightarrow> bool" where
  "isPOST (POST ev r) = True"
| "isPOST q = False"

fun isDELETE :: "httpRequest \<Rightarrow> bool" where
  "isDELETE (DELETE ev r) = True"
| "isDELETE q = False"

text \<open>
  The successful creates of a run are its \<^verbatim>\<open>POST\<close> requests answered 201, the successful
  deletes its \<^verbatim>\<open>DELETE\<close> requests answered 200.
\<close>

fun countCreated :: "httpRequest list \<Rightarrow> response option list \<Rightarrow> nat" where
  "countCreated (q # qs) (resp # resps) =
     (if isPOST q \<and> hasStatus 201 resp then 1 else 0) + countCreated qs resps"
| "countCreated qs resps = 0"

fun countDeleted :: "httpRequest list \<Rightarrow> response option list \<Rightarrow> nat" where
  "countDeleted (q # qs) (resp # resps) =
     (if isDELETE q \<and> hasStatus 200 resp then 1 else 0) + countDeleted qs resps"
| "countDeleted qs resps = 0"

text \<open>\<^verbatim>\<open>len\<close> of a slice: a \<^verbatim>\<open>nil\<close> slice has no element.\<close>

definition len :: "'a list option \<Rightarrow> nat" where
  "len s = (case s of None \<Rightarrow> 0 | Some xs \<Rightarrow> length xs)"

text \<open>Every record of the collection reads back with a non-empty title.\<close>

definition nonEmptyTitles :: "database \<Rightarrow> bool" where
  "nonEmptyTitles db = list_all (\<lambda>d. tm_Title (unmarshal d) \<noteq> []) (docs db)"

section \<open>Identifiers\<close>

lemma DecodeString_length: "DecodeString s = Some d \<Longrightarrow> length s = 2 * length d"
  by (induction s arbitrary: d rule: DecodeString.induct)
     (auto split: option.splits prod.splits)

lemma DecodeString_iff:
  "DecodeString s \<noteq> None \<longleftrightarrow> even (length s) \<and> (\<forall>c \<in> set s. fromHexChar c \<noteq> None)"
  by (induction s rule: DecodeString.induct) (auto split: option.splits)

text \<open>
  A string is a valid identifier exactly when it has 24 bytes, each of them a
  hexadecimal digit of either case.
\<close>

lemma IsObjectIdHex_iff:
  "IsObjectIdHex s \<longleftrightarrow> length s = 24 \<and> (\<forall>c \<in> set s. fromHexChar c \<noteq> None)"
  unfolding IsObjectIdHex_def using DecodeString_iff [of s] by auto

text \<open>After \<^verbatim>\<open>IsObjectIdHex\<close> has accepted a string, \<^verbatim>\<open>ObjectIdHex\<close> does not panic on it.\<close>

lemma IsObjectIdHex_ObjectIdHex:
  assumes "IsObjectIdHex s"
  shows "\<exists>oid. ObjectIdHex s = Some oid \<and> length oid = 12"
proof -
  from assms have n: "length s = 24" and dec: "DecodeString s \<noteq> None"
    by (auto simp: IsObjectIdHex_def split: if_splits)
  from dec obtain d where d: "DecodeString s = Some d"
    by auto
  with n have "length d = 12"
    using DecodeString_length [OF d] by simp
  with d show ?thesis
    by (simp add: ObjectIdHex_def)
qed

lemma hextable_digits: "list_all (\<lambda>k. fromHexChar (hextable ! k) = Some k) [0..<16]"
  by code_simp

lemma fromHexChar_hextable: "k < 16 \<Longrightarrow> fromHexChar (hextable ! k) = Some k"
  using hextable_digits by (simp add: list_all_iff)

lemma DecodeString_EncodeToString: "DecodeString (EncodeToString bs) = Some bs"
proof (induction bs)
  case Nil
  then show ?case by (simp add: EncodeToString_def)
next
  case (Cons b bs)
  have "(of_char b :: nat) < 256"
    by simp
  then have hi: "(of_char b :: nat) div 16 < 16" and lo: "(of_char b :: nat) mod 16 < 16"
    by arith+
  have "char_of ((of_char b :: nat) div 16 * 16 + of_char b mod 16) = b"
    by simp
  with Cons hi lo show ?case
    by (simp add: EncodeToString_def fromHexChar_hextable)
qed

lemma length_EncodeToString: "length (EncodeToString bs) = 2 * length bs"
  by (induction bs) (simp_all add: EncodeToString_def)

text \<open>
  The hexadecimal form of a twelve-byte identifier is a valid identifier string, and
  reading it gives the identifier back.
\<close>

lemma ObjectIdHex_Hex: "length oid = 12 \<Longrightarrow> ObjectIdHex (Hex oid) = Some oid"
  by (simp add: ObjectIdHex_def Hex_def DecodeString_EncodeToString)

lemma IsObjectIdHex_Hex: "length oid = 12 \<Longrightarrow> IsObjectIdHex (Hex oid)"
  by (simp add: IsObjectIdHex_def Hex_def DecodeString_EncodeToString length_EncodeToString)

section \<open>Creating\<close>

text \<open>
  C4. A create request whose body decodes with the empty title is answered 400 with the
  message "The title is required", and the database is left as it was: no document is
  inserted and no storage call is made.
\<close>

theorem createTodo_empty_title:
  assumes "decoded r = Inr t" and "t_Title t = []"
  shows "createTodo ev db r =
           Return (Some \<lparr>status = 400,
                         body = JObject [(''message'', JString ''The title is required'')]\<rparr>) db"
  using assms by (simp add: createTodo_def JSON_def StatusBadRequest_def)

theorem createTodo_empty_title_witness:
  "createTodo \<lparr>fault = None, newObjectId = ''abcdefghijkl'', now = 1700000000000\<rparr>
     \<lparr>docs = [\<lparr>d_id = ''000000000001'', d_title = Some ''buy milk'',
                d_completed = Some False, d_createdAt = Some 1600000000000\<rparr>],
      calls = []\<rparr>
     \<lparr>urlParam_id = [],
      decoded = Inr \<lparr>t_ID = [], t_Title = [], t_Completed = True, t_CreatedAt = zeroTime\<rparr>\<rparr>
   = Return (Some \<lparr>status = 400,
                   body = JObject [(''message'', JString ''The title is required'')]\<rparr>)
       \<lparr>docs = [\<lparr>d_id = ''000000000001'', d_title = Some ''buy milk'',
                  d_completed = Some False, d_createdAt = Some 1600000000000\<rparr>],
        calls = []\<rparr>"
  using createTodo_empty_title
    [of "\<lparr>urlParam_id = [],
           decoded = Inr \<lparr>t_ID = [], t_Title = [], t_Completed = True, t_CreatedAt = zeroTime\<rparr>\<rparr>"
        "\<lparr>t_ID = [], t_Title = [], t_Completed = True, t_CreatedAt = zeroTime\<rparr>"]
  by simp

section \<open>Path parameters used by the examples\<close>

lemma TrimSpace_short_id: "TrimSpace '' 5f1e7c2a9b3d4e6f8a0b1c2 '' = ''5f1e7c2a9b3d4e6f8a0b1c2''"
  by code_simp

lemma TrimSpace_bad_charset:
  "TrimSpace ''5f1e7c2a9b3d4e6f8a0b1c2g'' = ''5f1e7c2a9b3d4e6f8a0b1c2g''"
  by code_simp

lemma bad_charset: "\<not> IsObjectIdHex ''5f1e7c2a9b3d4e6f8a0b1c2g''"
  by code_simp

lemma TrimSpace_good_id:
  "TrimSpace ''5f1e7c2a9b3d4e6f8a0b1c2D'' = ''5f1e7c2a9b3d4e6f8a0b1c2D''"
  by code_simp

lemma good_id: "IsObjectIdHex ''5f1e7c2a9b3d4e6f8a0b1c2D''"
  by code_simp

lemma ObjectIdHex_present: "ObjectIdHex ''303030303030303030303031'' = Some ''000000000001''"
  by code_simp

lemma TrimSpace_present: "TrimSpace ''303030303030303030303031'' = ''303030303030303030303031''"
  by code_simp

lemma IsObjectIdHex_present: "IsObjectIdHex ''303030303030303030303031''"
  by code_simp

lemma ObjectIdHex_good_id:
  "ObjectIdHex ''5f1e7c2a9b3d4e6f8a0b1c2D'' =
     Some [CHR 0x5F, CHR 0x1E, CHR 0x7C, CHR 0x2A, CHR 0x9B, CHR 0x3D,
           CHR 0x4E, CHR 0x6F, CHR 0x8A, CHR 0x0B, CHR 0x1C, CHR 0x2D]"
  by code_simp

text \<open>
  A valid identifier string between two spaces is itself no valid identifier string (it
  has 26 bytes), and \<^verbatim>\<open>strings.TrimSpace\<close> makes it one.
\<close>

lemma padded_id_invalid: "\<not> IsObjectIdHex '' 303030303030303030303031 ''"
  by (simp add: IsObjectIdHex_def)

lemma TrimSpace_padded_id:
  "TrimSpace '' 303030303030303030303031 '' = ''303030303030303030303031''"
  by code_simp

section \<open>Deleting\<close>

text \<open>
  C6, as the code has it. The handler trims the path parameter before it tests it. A
  delete request whose path parameter, once trimmed of the white space around it, is not
  a valid identifier string (by \<open>IsObjectIdHex_iff\<close>: it has not 24 bytes, or one of them
  is no hexadecimal digit) is answered 400 with the message "The id is invalid", and the
  database is left as it was: no storage call is made and the collection is unchanged.
\<close>

theorem deleteTodo_invalid_id:
  assumes "\<not> IsObjectIdHex (TrimSpace (urlParam_id r))"
  shows "deleteTodo ev db r =
           Return (Some \<lparr>status = 400,
                         body = JObject [(''message'', JString ''The id is invalid'')]\<rparr>) db"
  using assms by (simp add: deleteTodo_def JSON_def StatusBadRequest_def)

theorem deleteTodo_invalid_id_witness:
  "deleteTodo \<lparr>fault = None, newObjectId = ''abcdefghijkl'', now = 1700000000000\<rparr>
     \<lparr>docs = [\<lparr>d_id = ''000000000001'', d_title = Some ''buy milk'',
                d_completed = Some False, d_createdAt = Some 1600000000000\<rparr>],
      calls = []\<rparr>
     \<lparr>urlParam_id = '' 5f1e7c2a9b3d4e6f8a0b1c2 '', decoded = Inl (ErrDecode ''EOF'')\<rparr>
   = Return (Some \<lparr>status = 400,
                   body = JObject [(''message'', JString ''The id is invalid'')]\<rparr>)
       \<lparr>docs = [\<lparr>d_id = ''000000000001'', d_title = Some ''buy milk'',
                  d_completed = Some False, d_createdAt = Some 1600000000000\<rparr>],
        calls = []\<rparr>
   \<and> deleteTodo \<lparr>fault = None, newObjectId = ''abcdefghijkl'', now = 1700000000000\<rparr>
       emptyDB
       \<lparr>urlParam_id = ''5f1e7c2a9b3d4e6f8a0b1c2g'', decoded = Inl (ErrDecode ''EOF'')\<rparr>
   = Return (Some \<lparr>status = 400,
                   body = JObject [(''message'', JString ''The id is invalid'')]\<rparr>) emptyDB"
proof -
  have short: "\<not> IsObjectIdHex (TrimSpace '' 5f1e7c2a9b3d4e6f8a0b1c2 '')"
    by (simp add: TrimSpace_short_id IsObjectIdHex_def)
  have charset: "\<not> IsObjectIdHex (TrimSpace ''5f1e7c2a9b3d4e6f8a0b1c2g'')"
    by (simp add: TrimSpace_bad_charset bad_charset)
  show ?thesis
    using short charset
      deleteTodo_invalid_id
        [of "\<lparr>urlParam_id = '' 5f1e7c2a9b3d4e6f8a0b1c2 '', decoded = Inl (ErrDecode ''EOF'')\<rparr>"]
      deleteTodo_invalid_id
        [of "\<lparr>urlParam_id = ''5f1e7c2a9b3d4e6f8a0b1c2g'', decoded = Inl (ErrDecode ''EOF'')\<rparr>"]
    by simp
qed

text \<open>
  C6 as the claim states it, on the path parameter itself, fails: a parameter of 26
  bytes, a valid identifier string between two spaces, is no valid identifier string,
  yet the handler trims it, calls \<^verbatim>\<open>RemoveId\<close>, answers 200 and the record is gone.
\<close>

theorem deleteTodo_padded_id_counterexample:
  "\<not> IsObjectIdHex '' 303030303030303030303031 ''
   \<and> deleteTodo \<lparr>fault = None, newObjectId = ''abcdefghijkl'', now = 1700000000000\<rparr>
       \<lparr>docs = [\<lparr>d_id = ''000000000001'', d_title = Some ''buy milk'',
                  d_completed = Some False, d_createdAt = Some 1600000000000\<rparr>],
        calls = []\<rparr>
       \<lparr>urlParam_id = '' 303030303030303030303031 '', decoded = Inl (ErrDecode ''EOF'')\<rparr>
   = Return (Some \<lparr>status = 200,
                   body = JObject [(''message'', JString ''Todo deleted successfully'')]\<rparr>)
       \<lparr>docs = [], calls = [CallRemoveId ''000000000001'']\<rparr>"
  by (simp add: padded_id_invalid deleteTodo_def TrimSpace_padded_id IsObjectIdHex_present
      ObjectIdHex_present RemoveId_def logCall_def JSON_def StatusOK_def)

section \<open>Updating: the checks\<close>

text \<open>
  C5, as the code has it. The handler trims the path parameter before it tests it. The
  update handler checks in this order, and a failing check ends the handler with the
  database as it was (no later check decides the response, no storage call is made):
  first the path parameter, once trimmed of the white space around it, must be a valid
  identifier string, else 400 "The id is invalid"; then the body must decode, else status
  102 (\<^verbatim>\<open>http.StatusProcessing\<close>) with "The body is invalid" and the decoding error; then
  the title must not be empty, else 400 "The title field is required".
\<close>

theorem updateTodo_validation_order:
  "(\<not> IsObjectIdHex (TrimSpace (urlParam_id r)) \<longrightarrow>
      updateTodo ev db r =
        Return (Some \<lparr>status = 400,
                      body = JObject [(''message'', JString ''The id is invalid'')]\<rparr>) db)
   \<and> (IsObjectIdHex (TrimSpace (urlParam_id r)) \<and> decoded r = Inl err \<longrightarrow>
      updateTodo ev db r =
        Return (Some \<lparr>status = 102,
                      body = JObject [(''error'', JError err),
                                      (''message'', JString ''The body is invalid'')]\<rparr>) db)
   \<and> (IsObjectIdHex (TrimSpace (urlParam_id r)) \<and> decoded r = Inr t \<and> t_Title t = [] \<longrightarrow>
      updateTodo ev db r =
        Return (Some \<lparr>status = 400,
                      body = JObject [(''message'', JString ''The title field is required'')]\<rparr>) db)"
  by (simp add: updateTodo_def JSON_def StatusBadRequest_def StatusProcessing_def)

theorem updateTodo_validation_order_witness:
  "updateTodo \<lparr>fault = None, newObjectId = ''abcdefghijkl'', now = 1700000000000\<rparr> emptyDB
     \<lparr>urlParam_id = ''5f1e7c2a9b3d4e6f8a0b1c2g'', decoded = Inl (ErrDecode ''EOF'')\<rparr>
   = Return (Some \<lparr>status = 400,
                   body = JObject [(''message'', JString ''The id is invalid'')]\<rparr>) emptyDB
   \<and> updateTodo \<lparr>fault = None, newObjectId = ''abcdefghijkl'', now = 1700000000000\<rparr> emptyDB
     \<lparr>urlParam_id = ''5f1e7c2a9b3d4e6f8a0b1c2D'', decoded = Inl (ErrDecode ''EOF'')\<rparr>
   = Return (Some \<lparr>status = 102,
                   body = JObject [(''error'', JError (ErrDecode ''EOF'')),
                                   (''message'', JString ''The body is invalid'')]\<rparr>) emptyDB
   \<and> updateTodo \<lparr>fault = None, newObjectId = ''abcdefghijkl'', now = 1700000000000\<rparr> emptyDB
     \<lparr>urlParam_id = ''5f1e7c2a9b3d4e6f8a0b1c2D'',
      decoded = Inr \<lparr>t_ID = [], t_Title = [], t_Completed = True, t_CreatedAt = zeroTime\<rparr>\<rparr>
   = Return (Some \<lparr>status = 400,
                   body = JObject [(''message'', JString ''The title field is required'')]\<rparr>)
       emptyDB"
proof -
  have bad: "\<not> IsObjectIdHex (TrimSpace ''5f1e7c2a9b3d4e6f8a0b1c2g'')"
    by (simp add: TrimSpace_bad_charset bad_charset)
  have good: "IsObjectIdHex (TrimSpace ''5f1e7c2a9b3d4e6f8a0b1c2D'')"
    by (simp add: TrimSpace_good_id good_id)
  show ?thesis
    using bad good
      updateTodo_validation_order
        [of "\<lparr>urlParam_id = ''5f1e7c2a9b3d4e6f8a0b1c2g'', decoded = Inl (ErrDecode ''EOF'')\<rparr>"]
      updateTodo_validation_order
        [of "\<lparr>urlParam_id = ''5f1e7c2a9b3d4e6f8a0b1c2D'', decoded = Inl (ErrDecode ''EOF'')\<rparr>"
            _ _ "ErrDecode ''EOF''"]
      updateTodo_validation_order
        [of "\<lparr>urlParam_id = ''5f1e7c2a9b3d4e6f8a0b1c2D'',
               decoded = Inr \<lparr>t_ID = [], t_Title = [], t_Completed = True,
                               t_CreatedAt = zeroTime\<rparr>\<rparr>"
            _ _ _ "\<lparr>t_ID = [], t_Title = [], t_Completed = True, t_CreatedAt = zeroTime\<rparr>"]
    by simp
qed

text \<open>
  C5 as the claim states it, on the path parameter itself, fails at its first check: a
  parameter of 26 bytes, a valid identifier string between two spaces, is no valid
  identifier string, yet the handler trims it, does not answer 400, goes on to the body
  and the title and makes its storage call.
\<close>

theorem updateTodo_padded_id_counterexample:
  "\<not> IsObjectIdHex '' 303030303030303030303031 ''
   \<and> updateTodo \<lparr>fault = None, newObjectId = ''abcdefghijkl'', now = 1700000000000\<rparr>
       \<lparr>docs = [\<lparr>d_id = ''000000000001'', d_title = Some ''buy milk'',
                  d_completed = Some False, d_createdAt = Some 1600000000000\<rparr>],
        calls = []\<rparr>
       \<lparr>urlParam_id = '' 303030303030303030303031 '',
        decoded = Inr \<lparr>t_ID = [], t_Title = ''call mum'', t_Completed = True,
                        t_CreatedAt = zeroTime\<rparr>\<rparr>
   = Return None
       \<lparr>docs = [\<lparr>d_id = ''000000000001'', d_title = Some ''call mum'',
                  d_completed = Some True, d_createdAt = None\<rparr>],
        calls = [CallUpdate ''000000000001'' ''call mum'' True]\<rparr>
   \<and> updateTodo \<lparr>fault = None, newObjectId = ''abcdefghijkl'', now = 1700000000000\<rparr>
       emptyDB
       \<lparr>urlParam_id = '' 303030303030303030303031 '', decoded = Inl (ErrDecode ''EOF'')\<rparr>
   = Return (Some \<lparr>status = 102,
                   body = JObject [(''error'', JError (ErrDecode ''EOF'')),
                                   (''message'', JString ''The body is invalid'')]\<rparr>) emptyDB"
  by (simp add: padded_id_invalid updateTodo_def TrimSpace_padded_id IsObjectIdHex_present
      ObjectIdHex_present Update_def logCall_def JSON_def StatusProcessing_def)

section \<open>Listing\<close>

lemma fetchLoop_Some: "fetchLoop (Some ts) todos = Some (ts @ map todoView todos)"
  by (induction todos arbitrary: ts) (simp_all add: append_slice_def)

lemma fetchLoop_None:
  "fetchLoop None todos = (if todos = [] then None else Some (map todoView todos))"
  by (cases todos) (simp_all add: append_slice_def fetchLoop_Some)

text \<open>
  C10. When the collection is empty and the query succeeds, the list handler answers 200
  with an object whose \<^verbatim>\<open>data\<close> member is \<^verbatim>\<open>null\<close>, not an empty array: \<^verbatim>\<open>todoList\<close> is
  declared without a value and the loop never appends to it.
\<close>

theorem fetchTodos_empty_null:
  assumes "docs db = []" and "fault ev = None"
  shows "fetchTodos ev db =
           Return (Some \<lparr>status = 200, body = JObject [(''data'', JNull)]\<rparr>)
             (db\<lparr>calls := calls db @ [CallFindAll]\<rparr>)"
  using assms
  by (simp add: fetchTodos_def FindAll_def logCall_def JSON_def StatusOK_def encodeTodoList_def)

theorem fetchTodos_empty_null_witness:
  "fetchTodos \<lparr>fault = None, newObjectId = ''abcdefghijkl'', now = 1700000000000\<rparr> emptyDB =
     Return (Some \<lparr>status = 200, body = JObject [(''data'', JNull)]\<rparr>)
       \<lparr>docs = [], calls = [CallFindAll]\<rparr>"
  using fetchTodos_empty_null
    [of emptyDB "\<lparr>fault = None, newObjectId = ''abcdefghijkl'', now = 1700000000000\<rparr>"]
  by (simp add: emptyDB_def)

text \<open>
  C7, as the code has it. When the query succeeds the list handler answers 200 with an
  object whose \<^verbatim>\<open>data\<close> member is \<^verbatim>\<open>null\<close> if the collection is empty, and otherwise the
  array of the views of all records in the collection's order, each view with the
  record's title, completed flag and creation time and with the identifier in
  hexadecimal. When the query fails it answers with status 102
  (\<^verbatim>\<open>http.StatusProcessing\<close>), the message "Failed to fetch Todo" and the error: not a
  status of the 5xx class.
\<close>

theorem fetchTodos_response:
  "(fault ev = None \<longrightarrow>
      fetchTodos ev db =
        Return (Some \<lparr>status = 200,
                      body = JObject [(''data'',
                        if docs db = [] then JNull
                        else JArray (map (\<lambda>d.
                               JObject [(''id'', JString (Hex (d_id d))),
                                        (''title'', JString (tm_Title (unmarshal d))),
                                        (''completed'', JBool (tm_Completed (unmarshal d))),
                                        (''createdAt'', JTime (tm_CreatedAt (unmarshal d)))])
                             (docs db)))]\<rparr>)
          (db\<lparr>calls := calls db @ [CallFindAll]\<rparr>))
   \<and> (fault ev = Some err \<longrightarrow>
      fetchTodos ev db =
        Return (Some \<lparr>status = 102,
                      body = JObject [(''error'', JError err),
                                      (''message'', JString ''Failed to fetch Todo'')]\<rparr>)
          (db\<lparr>calls := calls db @ [CallFindAll]\<rparr>))"
  by (simp add: fetchTodos_def FindAll_def logCall_def JSON_def StatusOK_def
      StatusProcessing_def encodeTodoList_def fetchLoop_None encodeTodo_def todoView_def
      unmarshal_def comp_def)

lemma Hex_example: "Hex ''000000000001'' = ''303030303030303030303031''"
  by code_simp

theorem fetchTodos_response_witness:
  "fetchTodos \<lparr>fault = None, newObjectId = ''abcdefghijkl'', now = 1700000000000\<rparr>
     \<lparr>docs = [\<lparr>d_id = ''000000000001'', d_title = Some ''buy milk'',
                d_completed = Some False, d_createdAt = Some 1600000000000\<rparr>],
      calls = []\<rparr>
   = Return (Some \<lparr>status = 200,
                   body = JObject [(''data'',
                     JArray [JObject [(''id'', JString ''303030303030303030303031''),
                                      (''title'', JString ''buy milk''),
                                      (''completed'', JBool False),
                                      (''createdAt'', JTime 1600000000000)]])]\<rparr>)
       \<lparr>docs = [\<lparr>d_id = ''000000000001'', d_title = Some ''buy milk'',
                  d_completed = Some False, d_createdAt = Some 1600000000000\<rparr>],
        calls = [CallFindAll]\<rparr>
   \<and> fetchTodos \<lparr>fault = Some (ErrStorage ''no reachable servers''),
                  newObjectId = ''abcdefghijkl'', now = 1700000000000\<rparr> emptyDB
   = Return (Some \<lparr>status = 102,
                   body = JObject [(''error'', JError (ErrStorage ''no reachable servers'')),
                                   (''message'', JString ''Failed to fetch Todo'')]\<rparr>)
       \<lparr>docs = [], calls = [CallFindAll]\<rparr>"
  using
    fetchTodos_response
      [of "\<lparr>fault = None, newObjectId = ''abcdefghijkl'', now = 1700000000000\<rparr>"
          "\<lparr>docs = [\<lparr>d_id = ''000000000001'', d_title = Some ''buy milk'',
                d_completed = Some False, d_createdAt = Some 1600000000000\<rparr>],
            calls = []\<rparr>"]
    fetchTodos_response
      [of "\<lparr>fault = Some (ErrStorage ''no reachable servers''),
            newObjectId = ''abcdefghijkl'', now = 1700000000000\<rparr>"
          emptyDB "ErrStorage ''no reachable servers''"]
  by (simp add: emptyDB_def unmarshal_def Hex_example)

text \<open>
  C7 as the claim states it fails on the empty collection: the \<^verbatim>\<open>data\<close> member is
  \<^verbatim>\<open>null\<close> there, not the (empty) array of the views of all records.
\<close>

theorem fetchTodos_data_counterexample:
  "fetchTodos \<lparr>fault = None, newObjectId = ''abcdefghijkl'', now = 1700000000000\<rparr> emptyDB =
     Return (Some \<lparr>status = 200, body = JObject [(''data'', JNull)]\<rparr>)
       (logCall CallFindAll emptyDB)
   \<and> fetchTodos \<lparr>fault = None, newObjectId = ''abcdefghijkl'', now = 1700000000000\<rparr> emptyDB \<noteq>
     Return (Some \<lparr>status = 200,
                   body = JObject [(''data'',
                     JArray (map (\<lambda>d. encodeTodo (todoView (unmarshal d))) (docs emptyDB)))]\<rparr>)
       (logCall CallFindAll emptyDB)"
  by (simp add: fetchTodos_def FindAll_def JSON_def StatusOK_def encodeTodoList_def emptyDB_def)

section \<open>Updating: the storage call\<close>

text \<open>Past its three checks the update handler makes its one storage call.\<close>

lemma updateTodo_valid:
  assumes "IsObjectIdHex (TrimSpace (urlParam_id r))"
    and "ObjectIdHex (TrimSpace (urlParam_id r)) = Some oid"
    and "decoded r = Inr t" and "t_Title t \<noteq> []"
  shows "updateTodo ev db r =
           (case Update ev db oid (t_Title t) (t_Completed t) of
              (Some err, db') \<Rightarrow>
                Return (Some \<lparr>status = 102,
                  body = JObject [(''message'', JString ''Failed to update todo'')]\<rparr>) db'
            | (None, db') \<Rightarrow> Return None db')"
  using assms
  by (simp add: updateTodo_def JSON_def StatusProcessing_def split: prod.splits option.splits)

text \<open>
  C2 as the claim states it fails: for the same collection and body, an update of an
  identifier no record has is answered 102 "Failed to update todo" (the driver reports
  \<^verbatim>\<open>ErrNotFound\<close>), an update of an identifier a record has is answered by no
  response at all.
\<close>

theorem updateTodo_missing_id_counterexample:
  "updateTodo \<lparr>fault = None, newObjectId = ''abcdefghijkl'', now = 1700000000000\<rparr>
     \<lparr>docs = [\<lparr>d_id = ''000000000001'', d_title = Some ''buy milk'',
                d_completed = Some False, d_createdAt = Some 1600000000000\<rparr>],
      calls = []\<rparr>
     \<lparr>urlParam_id = ''5f1e7c2a9b3d4e6f8a0b1c2D'',
      decoded = Inr \<lparr>t_ID = [], t_Title = ''call mum'', t_Completed = True,
                      t_CreatedAt = zeroTime\<rparr>\<rparr>
   = Return (Some \<lparr>status = 102,
                   body = JObject [(''message'', JString ''Failed to update todo'')]\<rparr>)
       \<lparr>docs = [\<lparr>d_id = ''000000000001'', d_title = Some ''buy milk'',
                  d_completed = Some False, d_createdAt = Some 1600000000000\<rparr>],
        calls = [CallUpdate [CHR 0x5F, CHR 0x1E, CHR 0x7C, CHR 0x2A, CHR 0x9B, CHR 0x3D,
                             CHR 0x4E, CHR 0x6F, CHR 0x8A, CHR 0x0B, CHR 0x1C, CHR 0x2D]
                   ''call mum'' True]\<rparr>
   \<and> updateTodo \<lparr>fault = None, newObjectId = ''abcdefghijkl'', now = 1700000000000\<rparr>
     \<lparr>docs = [\<lparr>d_id = ''000000000001'', d_title = Some ''buy milk'',
                d_completed = Some False, d_createdAt = Some 1600000000000\<rparr>],
      calls = []\<rparr>
     \<lparr>urlParam_id = ''303030303030303030303031'',
      decoded = Inr \<lparr>t_ID = [], t_Title = ''call mum'', t_Completed = True,
                      t_CreatedAt = zeroTime\<rparr>\<rparr>
   = Return None
       \<lparr>docs = [\<lparr>d_id = ''000000000001'', d_title = Some ''call mum'',
                  d_completed = Some True, d_createdAt = None\<rparr>],
        calls = [CallUpdate ''000000000001'' ''call mum'' True]\<rparr>"
  by (simp add: updateTodo_def TrimSpace_good_id good_id ObjectIdHex_good_id
      TrimSpace_present IsObjectIdHex_present ObjectIdHex_present
      Update_def logCall_def JSON_def StatusProcessing_def)

text \<open>
  C2, as the code has it. For an update request with a valid identifier string, a
  decodable body and a non-empty title: when no record has the identifier, the handler
  answers 102 "Failed to update todo" and leaves the collection unchanged; when a record
  has it and the storage call succeeds, the handler updates the collection and writes no
  response.
\<close>

theorem updateTodo_missing_or_present:
  assumes "IsObjectIdHex (TrimSpace (urlParam_id r))"
    and "ObjectIdHex (TrimSpace (urlParam_id r)) = Some oid"
    and "decoded r = Inr t" and "t_Title t \<noteq> []"
  shows "(oid \<notin> d_id ` set (docs db) \<longrightarrow>
            updateTodo ev db r =
              Return (Some \<lparr>status = 102,
                body = JObject [(''message'', JString ''Failed to update todo'')]\<rparr>)
                (db\<lparr>calls := calls db @ [CallUpdate oid (t_Title t) (t_Completed t)]\<rparr>))
       \<and> (oid \<in> d_id ` set (docs db) \<and> fault ev = None \<longrightarrow>
            updateTodo ev db r =
              Return None
                (db\<lparr>docs := replaceFirst oid (t_Title t) (t_Completed t) (docs db),
                    calls := calls db @ [CallUpdate oid (t_Title t) (t_Completed t)]\<rparr>))"
  unfolding updateTodo_valid [OF assms]
  by (auto simp: Update_def logCall_def split: option.splits)

theorem updateTodo_missing_or_present_witness:
  "updateTodo \<lparr>fault = None, newObjectId = ''abcdefghijkl'', now = 1700000000000\<rparr>
     \<lparr>docs = [\<lparr>d_id = ''000000000002'', d_title = Some ''buy milk'',
                d_completed = Some False, d_createdAt = Some 1600000000000\<rparr>],
      calls = []\<rparr>
     \<lparr>urlParam_id = ''303030303030303030303031'',
      decoded = Inr \<lparr>t_ID = [], t_Title = ''call mum'', t_Completed = True,
                      t_CreatedAt = zeroTime\<rparr>\<rparr>
   = Return (Some \<lparr>status = 102,
                   body = JObject [(''message'', JString ''Failed to update todo'')]\<rparr>)
       \<lparr>docs = [\<lparr>d_id = ''000000000002'', d_title = Some ''buy milk'',
                  d_completed = Some False, d_createdAt = Some 1600000000000\<rparr>],
        calls = [CallUpdate ''000000000001'' ''call mum'' True]\<rparr>
   \<and> updateTodo \<lparr>fault = None, newObjectId = ''abcdefghijkl'', now = 1700000000000\<rparr>
     \<lparr>docs = [\<lparr>d_id = ''000000000002'', d_title = Some ''buy milk'',
                d_completed = Some False, d_createdAt = Some 1600000000000\<rparr>,
              \<lparr>d_id = ''000000000001'', d_title = Some ''feed cat'',
                d_completed = Some False, d_createdAt = Some 1600000000001\<rparr>],
      calls = []\<rparr>
     \<lparr>urlParam_id = ''303030303030303030303031'',
      decoded = Inr \<lparr>t_ID = [], t_Title = ''call mum'', t_Completed = True,
                      t_CreatedAt = zeroTime\<rparr>\<rparr>
   = Return None
       \<lparr>docs = [\<lparr>d_id = ''000000000002'', d_title = Some ''buy milk'',
                  d_completed = Some False, d_createdAt = Some 1600000000000\<rparr>,
                \<lparr>d_id = ''000000000001'', d_title = Some ''call mum'',
                  d_completed = Some True, d_createdAt = None\<rparr>],
        calls = [CallUpdate ''000000000001'' ''call mum'' True]\<rparr>"
proof -
  let ?r = "\<lparr>urlParam_id = ''303030303030303030303031'',
             decoded = Inr \<lparr>t_ID = [], t_Title = ''call mum'', t_Completed = True,
                             t_CreatedAt = zeroTime\<rparr>\<rparr>"
  let ?t = "\<lparr>t_ID = [], t_Title = ''call mum'', t_Completed = True, t_CreatedAt = zeroTime\<rparr>"
  have valid: "IsObjectIdHex (TrimSpace (urlParam_id ?r))"
    by (simp add: TrimSpace_present IsObjectIdHex_present)
  have oid: "ObjectIdHex (TrimSpace (urlParam_id ?r)) = Some ''000000000001''"
    by (simp add: TrimSpace_present ObjectIdHex_present)
  have body: "decoded ?r = Inr ?t" and title: "t_Title ?t \<noteq> []"
    by simp_all
  show ?thesis
    using
      updateTodo_missing_or_present [OF valid oid body title,
        of "\<lparr>docs = [\<lparr>d_id = ''000000000002'', d_title = Some ''buy milk'',
                d_completed = Some False, d_createdAt = Some 1600000000000\<rparr>],
             calls = []\<rparr>"
           "\<lparr>fault = None, newObjectId = ''abcdefghijkl'', now = 1700000000000\<rparr>"]
      updateTodo_missing_or_present [OF valid oid body title,
        of "\<lparr>docs = [\<lparr>d_id = ''000000000002'', d_title = Some ''buy milk'',
                d_completed = Some False, d_createdAt = Some 1600000000000\<rparr>,
              \<lparr>d_id = ''000000000001'', d_title = Some ''feed cat'',
                d_completed = Some False, d_createdAt = Some 1600000000001\<rparr>],
             calls = []\<rparr>"
           "\<lparr>fault = None, newObjectId = ''abcdefghijkl'', now = 1700000000000\<rparr>"]
    by simp
qed

section \<open>Creating a record\<close>




section \<open>Updating a record\<close>

text \<open>What \<^verbatim>\<open>Update\<close> does to the documents: the order, the number and the identifiers stay.\<close>

lemma length_replaceFirst: "length (replaceFirst oid title completed ds) = length ds"
  by (induction ds) simp_all

lemma map_d_id_replaceFirst: "map d_id (replaceFirst oid title completed ds) = map d_id ds"
  by (induction ds) simp_all

text \<open>
  A successful update leaves the record at the same place with the same identifier, the
  new title and the new completed flag, and leaves the other records as they were; but the
  replaced document has no \<^verbatim>\<open>createdAt\<close> any more, so the record reads back with Go's zero
  time.
\<close>

lemma replaceFirst_nth:
  assumes "i < length ds" and "d_id (ds ! i) = oid" and "oid \<notin> d_id ` set (take i ds)"
  shows "replaceFirst oid title completed ds =
           ds[i := \<lparr>d_id = oid, d_title = Some title, d_completed = Some completed,
                    d_createdAt = None\<rparr>]"
  using assms
proof (induction ds arbitrary: i)
  case Nil
  then show ?case by simp
next
  case (Cons d ds)
  show ?case
  proof (cases i)
    case 0
    with Cons.prems show ?thesis by simp
  next
    case (Suc j)
    with Cons.prems have "d_id d \<noteq> oid"
      by auto
    with Cons Suc show ?thesis
      by simp
  qed
qed

text \<open>
  C1, on the code. A record created with a creation time is updated through a valid
  request for its identifier: the handler succeeds, the identifier stays, title and
  completed change, and the stored document loses \<^verbatim>\<open>createdAt\<close>: the next listing
  shows the zero time in place of the creation time.
\<close>

theorem updateTodo_loses_createdAt:
  "updateTodo \<lparr>fault = None, newObjectId = ''abcdefghijkl'', now = 1700000000000\<rparr>
     \<lparr>docs = [\<lparr>d_id = ''000000000001'', d_title = Some ''buy milk'',
                d_completed = Some False, d_createdAt = Some 1600000000000\<rparr>],
      calls = []\<rparr>
     \<lparr>urlParam_id = ''303030303030303030303031'',
      decoded = Inr \<lparr>t_ID = [], t_Title = ''buy oat milk'', t_Completed = True,
                      t_CreatedAt = zeroTime\<rparr>\<rparr>
   = Return None
       \<lparr>docs = [\<lparr>d_id = ''000000000001'', d_title = Some ''buy oat milk'',
                  d_completed = Some True, d_createdAt = None\<rparr>],
        calls = [CallUpdate ''000000000001'' ''buy oat milk'' True]\<rparr>
   \<and> fetchTodos \<lparr>fault = None, newObjectId = ''abcdefghijkl'', now = 1700000000001\<rparr>
       \<lparr>docs = [\<lparr>d_id = ''000000000001'', d_title = Some ''buy oat milk'',
                  d_completed = Some True, d_createdAt = None\<rparr>],
        calls = [CallUpdate ''000000000001'' ''buy oat milk'' True]\<rparr>
   = Return (Some \<lparr>status = 200,
                   body = JObject [(''data'',
                     JArray [JObject [(''id'', JString ''303030303030303030303031''),
                                      (''title'', JString ''buy oat milk''),
                                      (''completed'', JBool True),
                                      (''createdAt'', JTime zeroTime)]])]\<rparr>)
       \<lparr>docs = [\<lparr>d_id = ''000000000001'', d_title = Some ''buy oat milk'',
                  d_completed = Some True, d_createdAt = None\<rparr>],
        calls = [CallUpdate ''000000000001'' ''buy oat milk'' True, CallFindAll]\<rparr>
   \<and> zeroTime \<noteq> 1600000000000"
  by (simp add: updateTodo_def TrimSpace_present IsObjectIdHex_present ObjectIdHex_present
      Update_def logCall_def fetchTodos_def FindAll_def JSON_def StatusOK_def
      encodeTodoList_def append_slice_def encodeTodo_def todoView_def unmarshal_def
      Hex_example zeroTime_def)

section \<open>The invariant of the titles\<close>

lemma set_removeFirst: "set (removeFirst oid ds) \<subseteq> set ds"
  by (induction ds) auto

lemma nonEmptyTitles_logCall: "nonEmptyTitles (logCall c db) = nonEmptyTitles db"
  by (simp add: nonEmptyTitles_def logCall_def)

lemma Insert_nonEmptyTitles:
  assumes "nonEmptyTitles db" and "tm_Title tm \<noteq> []" and "Insert ev db tm = (e, db')"
  shows "nonEmptyTitles db'"
proof -
  from assms(1,2) have "nonEmptyTitles (db\<lparr>docs := docs db @ [marshal tm]\<rparr>)"
    by (simp add: nonEmptyTitles_def marshal_def unmarshal_def)
  with assms(1,3) show ?thesis
    by (auto simp: Insert_def nonEmptyTitles_logCall split: option.splits if_splits)
qed

lemma replaceFirst_nonEmptyTitles:
  assumes "list_all (\<lambda>d. tm_Title (unmarshal d) \<noteq> []) ds" and "title \<noteq> []"
  shows "list_all (\<lambda>d. tm_Title (unmarshal d) \<noteq> []) (replaceFirst oid title completed ds)"
  using assms by (induction ds) (simp_all add: unmarshal_def)

lemma Update_nonEmptyTitles:
  assumes "nonEmptyTitles db" and "title \<noteq> []"
    and "Update ev db oid title completed = (e, db')"
  shows "nonEmptyTitles db'"
proof -
  from assms(1,2) have
    "nonEmptyTitles (db\<lparr>docs := replaceFirst oid title completed (docs db)\<rparr>)"
    by (simp add: nonEmptyTitles_def replaceFirst_nonEmptyTitles)
  with assms(1,3) show ?thesis
    by (auto simp: Update_def nonEmptyTitles_logCall split: option.splits if_splits)
qed

lemma RemoveId_nonEmptyTitles:
  assumes "nonEmptyTitles db" and "RemoveId ev db oid = (e, db')"
  shows "nonEmptyTitles db'"
proof -
  from assms(1) have "nonEmptyTitles (db\<lparr>docs := removeFirst oid (docs db)\<rparr>)"
    using set_removeFirst [of oid "docs db"]
    by (auto simp: nonEmptyTitles_def list_all_iff)
  with assms show ?thesis
    by (auto simp: RemoveId_def nonEmptyTitles_logCall split: option.splits if_splits)
qed

lemma createTodo_nonEmptyTitles:
  assumes "nonEmptyTitles db" and "createTodo ev db r = Return resp db'"
  shows "nonEmptyTitles db'"
proof (cases "decoded r")
  case (Inl err)
  with assms show ?thesis
    by (simp add: createTodo_def)
next
  case (Inr t)
  show ?thesis
  proof (cases "t_Title t = []")
    case True
    with Inr assms show ?thesis
      by (simp add: createTodo_def)
  next
    case False
    let ?tm = "\<lparr>tm_ID = newObjectId ev, tm_Title = t_Title t, tm_Completed = False,
                tm_CreatedAt = now ev\<rparr>"
    obtain e db1 where ins: "Insert ev db ?tm = (e, db1)"
      by (cases "Insert ev db ?tm")
    with Inr False assms(2) have "db' = db1"
      by (cases e) (simp_all add: createTodo_def Let_def)
    moreover from assms(1) False ins have "nonEmptyTitles db1"
      by (intro Insert_nonEmptyTitles [of db ?tm ev e db1]) simp_all
    ultimately show ?thesis
      by simp
  qed
qed

lemma updateTodo_nonEmptyTitles:
  assumes "nonEmptyTitles db" and "updateTodo ev db r = Return resp db'"
  shows "nonEmptyTitles db'"
proof (cases "IsObjectIdHex (TrimSpace (urlParam_id r))")
  case False
  with assms show ?thesis
    by (simp add: updateTodo_def)
next
  case True
  then obtain oid where oid: "ObjectIdHex (TrimSpace (urlParam_id r)) = Some oid"
    using IsObjectIdHex_ObjectIdHex by blast
  show ?thesis
  proof (cases "decoded r")
    case (Inl err)
    with True assms show ?thesis
      by (simp add: updateTodo_def)
  next
    case (Inr t)
    show ?thesis
    proof (cases "t_Title t = []")
      case empty: True
      with True Inr assms show ?thesis
        by (simp add: updateTodo_def)
    next
      case nonempty: False
      obtain e db1 where upd: "Update ev db oid (t_Title t) (t_Completed t) = (e, db1)"
        by (cases "Update ev db oid (t_Title t) (t_Completed t)")
      with assms(2) have "db' = db1"
        unfolding updateTodo_valid [OF True oid Inr nonempty]
        by (cases e) simp_all
      with assms(1) nonempty upd show ?thesis
        using Update_nonEmptyTitles by blast
    qed
  qed
qed

lemma deleteTodo_nonEmptyTitles:
  assumes "nonEmptyTitles db" and "deleteTodo ev db r = Return resp db'"
  shows "nonEmptyTitles db'"
proof (cases "IsObjectIdHex (TrimSpace (urlParam_id r))")
  case False
  with assms show ?thesis
    by (simp add: deleteTodo_def)
next
  case True
  then obtain oid where oid: "ObjectIdHex (TrimSpace (urlParam_id r)) = Some oid"
    using IsObjectIdHex_ObjectIdHex by blast
  obtain e db1 where rm: "RemoveId ev db oid = (e, db1)"
    by (cases "RemoveId ev db oid")
  with True oid assms(2) have "db' = db1"
    by (cases e) (simp_all add: deleteTodo_def)
  with assms(1) rm show ?thesis
    using RemoveId_nonEmptyTitles by blast
qed

text \<open>
  C9. "Every record of the collection has a non-empty title" holds of the empty
  collection and is kept by every create, update and delete request, whatever the request
  and the environment: create and update refuse an empty title before their storage call,
  and delete only removes a record.
\<close>

theorem nonEmptyTitles_invariant:
  "nonEmptyTitles emptyDB
   \<and> (nonEmptyTitles db \<and> createTodo ev db r = Return resp db' \<longrightarrow> nonEmptyTitles db')
   \<and> (nonEmptyTitles db \<and> updateTodo ev db r = Return resp db' \<longrightarrow> nonEmptyTitles db')
   \<and> (nonEmptyTitles db \<and> deleteTodo ev db r = Return resp db' \<longrightarrow> nonEmptyTitles db')"
proof -
  have "nonEmptyTitles emptyDB"
    by (simp add: nonEmptyTitles_def emptyDB_def)
  then show ?thesis
    using createTodo_nonEmptyTitles updateTodo_nonEmptyTitles deleteTodo_nonEmptyTitles
    by blast
qed
theorem nonEmptyTitles_invariant_witness:
  "nonEmptyTitles emptyDB
   \<and> nonEmptyTitles
       \<lparr>docs = [\<lparr>d_id = ''000000000001'', d_title = Some ''buy milk'',
                  d_completed = Some False, d_createdAt = Some 1700000000000\<rparr>],
        calls = [CallInsert \<lparr>tm_ID = ''000000000001'', tm_Title = ''buy milk'',
                              tm_Completed = False, tm_CreatedAt = 1700000000000\<rparr>]\<rparr>
   \<and> nonEmptyTitles
       \<lparr>docs = [\<lparr>d_id = ''000000000001'', d_title = Some ''call mum'',
                  d_completed = Some True, d_createdAt = None\<rparr>],
        calls = [CallInsert \<lparr>tm_ID = ''000000000001'', tm_Title = ''buy milk'',
                              tm_Completed = False, tm_CreatedAt = 1700000000000\<rparr>,
                 CallUpdate ''000000000001'' ''call mum'' True]\<rparr>
   \<and> nonEmptyTitles
       \<lparr>docs = [],
        calls = [CallInsert \<lparr>tm_ID = ''000000000001'', tm_Title = ''buy milk'',
                              tm_Completed = False, tm_CreatedAt = 1700000000000\<rparr>,
                 CallUpdate ''000000000001'' ''call mum'' True,
                 CallRemoveId ''000000000001'']\<rparr>"
proof -
  let ?ev = "\<lparr>fault = None, newObjectId = ''000000000001'', now = 1700000000000\<rparr>"
  let ?post = "\<lparr>urlParam_id = [],
                decoded = Inr \<lparr>t_ID = [], t_Title = ''buy milk'', t_Completed = True,
                                t_CreatedAt = zeroTime\<rparr>\<rparr>"
  let ?put = "\<lparr>urlParam_id = ''303030303030303030303031'',
               decoded = Inr \<lparr>t_ID = [], t_Title = ''call mum'', t_Completed = True,
                               t_CreatedAt = zeroTime\<rparr>\<rparr>"
  let ?del = "\<lparr>urlParam_id = ''303030303030303030303031'', decoded = Inl (ErrDecode ''EOF'')\<rparr>"
  let ?db1 = "\<lparr>docs = [\<lparr>d_id = ''000000000001'', d_title = Some ''buy milk'',
                  d_completed = Some False, d_createdAt = Some 1700000000000\<rparr>],
        calls = [CallInsert \<lparr>tm_ID = ''000000000001'', tm_Title = ''buy milk'',
                              tm_Completed = False, tm_CreatedAt = 1700000000000\<rparr>]\<rparr>"
  let ?db2 = "\<lparr>docs = [\<lparr>d_id = ''000000000001'', d_title = Some ''call mum'',
                  d_completed = Some True, d_createdAt = None\<rparr>],
        calls = [CallInsert \<lparr>tm_ID = ''000000000001'', tm_Title = ''buy milk'',
                              tm_Completed = False, tm_CreatedAt = 1700000000000\<rparr>,
                 CallUpdate ''000000000001'' ''call mum'' True]\<rparr>"
  let ?db3 = "\<lparr>docs = [],
        calls = [CallInsert \<lparr>tm_ID = ''000000000001'', tm_Title = ''buy milk'',
                              tm_Completed = False, tm_CreatedAt = 1700000000000\<rparr>,
                 CallUpdate ''000000000001'' ''call mum'' True,
                 CallRemoveId ''000000000001'']\<rparr>"
  have created:
    "createTodo ?ev emptyDB ?post =
       Return (Some (JSON StatusCreated
         (JObject [(''message'', JString ''todo created successfully''),
                   (''todo_id'', JString (Hex ''000000000001''))]))) ?db1"
    by (simp add: createTodo_def Insert_def logCall_def marshal_def emptyDB_def)
  have updated: "updateTodo ?ev ?db1 ?put = Return None ?db2"
    by (simp add: updateTodo_def TrimSpace_present IsObjectIdHex_present ObjectIdHex_present
        Update_def logCall_def)
  have deleted:
    "deleteTodo ?ev ?db2 ?del =
       Return (Some (JSON StatusOK
         (JObject [(''message'', JString ''Todo deleted successfully'')]))) ?db3"
    by (simp add: deleteTodo_def TrimSpace_present IsObjectIdHex_present ObjectIdHex_present
        RemoveId_def logCall_def)
  have inv0: "nonEmptyTitles emptyDB"
    using nonEmptyTitles_invariant [of emptyDB ?ev ?post None emptyDB] by blast
  from created have inv1: "nonEmptyTitles ?db1"
    using nonEmptyTitles_invariant [of emptyDB ?ev ?post _ ?db1] by blast
  with updated have inv2: "nonEmptyTitles ?db2"
    using nonEmptyTitles_invariant [of ?db1 ?ev ?put None ?db2] by blast
  with deleted have inv3: "nonEmptyTitles ?db3"
    using nonEmptyTitles_invariant [of ?db2 ?ev ?del _ ?db3] by blast
  from inv0 inv1 inv2 inv3 show ?thesis
    by blast
qed

section \<open>Counting the records of a run\<close>

lemma length_removeFirst:
  "oid \<in> set (map d_id ds) \<Longrightarrow> Suc (length (removeFirst oid ds)) = length ds"
  by (induction ds) auto

lemma docs_logCall: "docs (logCall c db) = docs db"
  by (simp add: logCall_def)

lemma Insert_length:
  assumes "Insert ev db tm = (e, db')"
  shows "length (docs db') = length (docs db) + (if e = None then 1 else 0)"
  using assms by (auto simp: Insert_def docs_logCall split: option.splits if_splits)

lemma Update_length:
  assumes "Update ev db oid title completed = (e, db')"
  shows "length (docs db') = length (docs db)"
  using assms
  by (auto simp: Update_def docs_logCall length_replaceFirst split: option.splits if_splits)

lemma RemoveId_length:
  assumes "RemoveId ev db oid = (e, db')"
  shows "length (docs db') + (if e = None then 1 else 0) = length (docs db)"
  using assms length_removeFirst [of oid "docs db"]
  by (auto simp: RemoveId_def docs_logCall split: option.splits if_splits)

lemma fetchTodos_docs:
  assumes "fetchTodos ev db = Return resp db'"
  shows "docs db' = docs db"
  using assms
  by (auto simp: fetchTodos_def FindAll_def docs_logCall split: option.splits)

lemma createTodo_length:
  assumes "createTodo ev db r = Return resp db'"
  shows "length (docs db') = length (docs db) + (if hasStatus 201 resp then 1 else 0)"
proof (cases "decoded r")
  case (Inl err)
  with assms show ?thesis
    by (auto simp: createTodo_def hasStatus_def JSON_def StatusProcessing_def)
next
  case (Inr t)
  show ?thesis
  proof (cases "t_Title t = []")
    case True
    with Inr assms show ?thesis
      by (auto simp: createTodo_def hasStatus_def JSON_def StatusBadRequest_def)
  next
    case False
    let ?tm = "\<lparr>tm_ID = newObjectId ev, tm_Title = t_Title t, tm_Completed = False,
                tm_CreatedAt = now ev\<rparr>"
    obtain e db1 where ins: "Insert ev db ?tm = (e, db1)"
      by (cases "Insert ev db ?tm")
    with Inr False assms have "db' = db1" and "hasStatus 201 resp \<longleftrightarrow> e = None"
      by (cases e; auto simp: createTodo_def Let_def hasStatus_def JSON_def
          StatusProcessing_def StatusCreated_def)+
    with Insert_length [OF ins] show ?thesis
      by simp
  qed
qed

lemma updateTodo_length:
  assumes "updateTodo ev db r = Return resp db'"
  shows "length (docs db') = length (docs db)"
proof (cases "IsObjectIdHex (TrimSpace (urlParam_id r))")
  case False
  with assms show ?thesis
    by (simp add: updateTodo_def)
next
  case True
  then obtain oid where oid: "ObjectIdHex (TrimSpace (urlParam_id r)) = Some oid"
    using IsObjectIdHex_ObjectIdHex by blast
  show ?thesis
  proof (cases "decoded r")
    case (Inl err)
    with True assms show ?thesis
      by (simp add: updateTodo_def)
  next
    case (Inr t)
    show ?thesis
    proof (cases "t_Title t = []")
      case empty: True
      with True Inr assms show ?thesis
        by (simp add: updateTodo_def)
    next
      case nonempty: False
      obtain e db1 where upd: "Update ev db oid (t_Title t) (t_Completed t) = (e, db1)"
        by (cases "Update ev db oid (t_Title t) (t_Completed t)")
      with assms have "db' = db1"
        unfolding updateTodo_valid [OF True oid Inr nonempty]
        by (cases e) simp_all
      with Update_length [OF upd] show ?thesis
        by simp
    qed
  qed
qed

lemma deleteTodo_length:
  assumes "deleteTodo ev db r = Return resp db'"
  shows "length (docs db') + (if hasStatus 200 resp then 1 else 0) = length (docs db)"
proof (cases "IsObjectIdHex (TrimSpace (urlParam_id r))")
  case False
  with assms show ?thesis
    by (auto simp: deleteTodo_def hasStatus_def JSON_def StatusBadRequest_def)
next
  case True
  then obtain oid where oid: "ObjectIdHex (TrimSpace (urlParam_id r)) = Some oid"
    using IsObjectIdHex_ObjectIdHex by blast
  obtain e db1 where rm: "RemoveId ev db oid = (e, db1)"
    by (cases "RemoveId ev db oid")
  with True oid assms have "db' = db1" and "hasStatus 200 resp \<longleftrightarrow> e = None"
    by (cases e; auto simp: deleteTodo_def hasStatus_def JSON_def StatusBadRequest_def
        StatusOK_def)+
  with RemoveId_length [OF rm] show ?thesis
    by simp
qed

lemma serve_length:
  assumes "serve db q = (resp, db')"
  shows "length (docs db') + (if isDELETE q \<and> hasStatus 200 resp then 1 else 0) =
         length (docs db) + (if isPOST q \<and> hasStatus 201 resp then 1 else 0)"
proof (cases q)
  case (GET ev)
  with assms fetchTodos_docs [of ev db] show ?thesis
    by (auto simp: serve_def split: result.splits)
next
  case (POST ev r)
  with assms createTodo_length [of ev db r] show ?thesis
    by (auto simp: serve_def hasStatus_def split: result.splits)
next
  case (PUT ev r)
  with assms updateTodo_length [of ev db r] show ?thesis
    by (auto simp: serve_def split: result.splits)
next
  case (DELETE ev r)
  with assms deleteTodo_length [of ev db r] show ?thesis
    by (auto simp: serve_def hasStatus_def split: result.splits)
qed

lemma run_length:
  assumes "run db qs = (resps, db')"
  shows "length (docs db') + countDeleted qs resps = length (docs db) + countCreated qs resps"
  using assms
proof (induction qs arbitrary: db resps db')
  case Nil
  then show ?case by simp
next
  case (Cons q qs)
  obtain resp db1 where s: "serve db q = (resp, db1)"
    by (cases "serve db q")
  obtain rest db2 where r: "run db1 qs = (rest, db2)"
    by (cases "run db1 qs")
  from Cons.prems s r have eq: "resps = resp # rest" "db' = db2"
    by simp_all
  from Cons.IH [OF r] serve_length [OF s] eq show ?case
    by simp
qed

text \<open>
  C8. Start from the empty collection and serve any sequence of requests; let N be the
  number of its creates answered 201 and M the number of its deletes answered 200. Then
  M is at most N, and a listing whose query succeeds is answered 200 with exactly N - M
  records (\<^verbatim>\<open>null\<close> standing for no record).
\<close>

theorem list_after_creates_and_deletes:
  assumes "run emptyDB qs = (resps, db)" and "fault ev = None"
  shows "\<exists>todoList db'.
           fetchTodos ev db =
             Return (Some \<lparr>status = 200,
                           body = JObject [(''data'', encodeTodoList todoList)]\<rparr>) db'
         \<and> len todoList = countCreated qs resps - countDeleted qs resps
         \<and> countDeleted qs resps \<le> countCreated qs resps"
proof -
  from run_length [OF assms(1)] have
    n: "length (docs db) + countDeleted qs resps = countCreated qs resps"
    by (simp add: emptyDB_def)
  have "len (fetchLoop None (map unmarshal (docs db))) = length (docs db)"
    by (simp add: fetchLoop_None len_def)
  with n have
    "len (fetchLoop None (map unmarshal (docs db))) =
       countCreated qs resps - countDeleted qs resps"
    and "countDeleted qs resps \<le> countCreated qs resps"
    by simp_all
  moreover from assms(2) have
    "fetchTodos ev db =
       Return (Some \<lparr>status = 200,
         body = JObject [(''data'',
           encodeTodoList (fetchLoop None (map unmarshal (docs db))))]\<rparr>)
         (logCall CallFindAll db)"
    by (simp add: fetchTodos_def FindAll_def JSON_def StatusOK_def)
  ultimately show ?thesis
    by blast
qed
theorem list_after_creates_and_deletes_witness:
  "\<exists>todoList db'.
     fetchTodos \<lparr>fault = None, newObjectId = ''000000000003'', now = 1700000000003\<rparr>
       \<lparr>docs = [\<lparr>d_id = ''000000000002'', d_title = Some ''call mum'',
                  d_completed = Some False, d_createdAt = Some 1700000000001\<rparr>],
        calls = [CallInsert \<lparr>tm_ID = ''000000000001'', tm_Title = ''buy milk'',
                              tm_Completed = False, tm_CreatedAt = 1700000000000\<rparr>,
                 CallInsert \<lparr>tm_ID = ''000000000002'', tm_Title = ''call mum'',
                              tm_Completed = False, tm_CreatedAt = 1700000000001\<rparr>,
                 CallRemoveId ''000000000001'']\<rparr>
     = Return (Some \<lparr>status = 200,
                     body = JObject [(''data'', encodeTodoList todoList)]\<rparr>) db'
     \<and> len todoList = 2 - 1"
proof -
  let ?post1 = "POST \<lparr>fault = None, newObjectId = ''000000000001'', now = 1700000000000\<rparr>
                  \<lparr>urlParam_id = [],
                   decoded = Inr \<lparr>t_ID = [], t_Title = ''buy milk'', t_Completed = False,
                                   t_CreatedAt = zeroTime\<rparr>\<rparr>"
  let ?post2 = "POST \<lparr>fault = None, newObjectId = ''000000000002'', now = 1700000000001\<rparr>
                  \<lparr>urlParam_id = [],
                   decoded = Inr \<lparr>t_ID = [], t_Title = ''call mum'', t_Completed = True,
                                   t_CreatedAt = zeroTime\<rparr>\<rparr>"
  let ?delete1 = "DELETE \<lparr>fault = None, newObjectId = [], now = 1700000000002\<rparr>
                    \<lparr>urlParam_id = ''303030303030303030303031'',
                     decoded = Inl (ErrDecode ''EOF'')\<rparr>"
  let ?resps =
    "[Some \<lparr>status = 201,
            body = JObject [(''message'', JString ''todo created successfully''),
                            (''todo_id'', JString ''303030303030303030303031'')]\<rparr>,
      Some \<lparr>status = 201,
            body = JObject [(''message'', JString ''todo created successfully''),
                            (''todo_id'', JString ''303030303030303030303032'')]\<rparr>,
      Some \<lparr>status = 200,
            body = JObject [(''message'', JString ''Todo deleted successfully'')]\<rparr>]"
  let ?db =
    "\<lparr>docs = [\<lparr>d_id = ''000000000002'', d_title = Some ''call mum'',
                d_completed = Some False, d_createdAt = Some 1700000000001\<rparr>],
      calls = [CallInsert \<lparr>tm_ID = ''000000000001'', tm_Title = ''buy milk'',
                            tm_Completed = False, tm_CreatedAt = 1700000000000\<rparr>,
               CallInsert \<lparr>tm_ID = ''000000000002'', tm_Title = ''call mum'',
                            tm_Completed = False, tm_CreatedAt = 1700000000001\<rparr>,
               CallRemoveId ''000000000001'']\<rparr>"
  have hex2: "Hex ''000000000002'' = ''303030303030303030303032''"
    by code_simp
  have ran: "run emptyDB [?post1, ?post2, ?delete1] = (?resps, ?db)"
    by (simp add: serve_def createTodo_def deleteTodo_def Insert_def RemoveId_def logCall_def
        marshal_def emptyDB_def JSON_def StatusCreated_def StatusOK_def Hex_example hex2
        TrimSpace_present IsObjectIdHex_present ObjectIdHex_present)
  have created: "countCreated [?post1, ?post2, ?delete1] ?resps = 2"
    and deleted: "countDeleted [?post1, ?post2, ?delete1] ?resps = 1"
    by (simp_all add: hasStatus_def)
  show ?thesis
    using list_after_creates_and_deletes [OF ran,
        of "\<lparr>fault = None, newObjectId = ''000000000003'', now = 1700000000003\<rparr>"]
    unfolding created deleted
    by auto
qed

section \<open>No handler panics\<close>

text \<open>
  \<^verbatim>\<open>bson.ObjectIdHex\<close> is only called on a string \<^verbatim>\<open>bson.IsObjectIdHex\<close> has accepted, so
  the panic of the two handlers that call it is never reached.
\<close>

lemma deleteTodo_no_panic: "deleteTodo ev db r \<noteq> Panic"
proof (cases "IsObjectIdHex (TrimSpace (urlParam_id r))")
  case False
  then show ?thesis
    by (simp add: deleteTodo_def)
next
  case True
  then obtain oid where "ObjectIdHex (TrimSpace (urlParam_id r)) = Some oid"
    using IsObjectIdHex_ObjectIdHex by blast
  with True show ?thesis
    by (simp add: deleteTodo_def split: prod.splits option.splits)
qed

lemma updateTodo_no_panic: "updateTodo ev db r \<noteq> Panic"
proof (cases "IsObjectIdHex (TrimSpace (urlParam_id r))")
  case False
  then show ?thesis
    by (simp add: updateTodo_def)
next
  case True
  then obtain oid where "ObjectIdHex (TrimSpace (urlParam_id r)) = Some oid"
    using IsObjectIdHex_ObjectIdHex by blast
  with True show ?thesis
    by (simp add: updateTodo_def split: prod.splits option.splits sum.splits)
qed

end
